theory Spec2Isabelle
  imports Main
begin

section \<open>Strings and paths\<close>

text \<open>
  Python strings are modelled as \<open>string\<close>; the helpers below are the string methods the
  module uses (\<open>startswith\<close>, \<open>endswith\<close>, \<open>split\<close>, \<open>join\<close>, \<open>in\<close>).
\<close>

definition startswith :: "string \<Rightarrow> string \<Rightarrow> bool" where
  "startswith s p = (take (length p) s = p)"

definition endswith :: "string \<Rightarrow> string \<Rightarrow> bool" where
  "endswith s p = (length p \<le> length s \<and> drop (length s - length p) s = p)"

text \<open>\<open>s.split(c)\<close> for a one-character separator: never the empty list.\<close>

fun split_on :: "char \<Rightarrow> string \<Rightarrow> string list" where
  "split_on c [] = [[]]"
| "split_on c (x # xs) =
     (if x = c then [] # split_on c xs
      else (case split_on c xs of [] \<Rightarrow> [[x]] | w # ws \<Rightarrow> (x # w) # ws))"

text \<open>\<open>sep.join(xs)\<close>.\<close>

fun str_join :: "string \<Rightarrow> string list \<Rightarrow> string" where
  "str_join sep [] = []"
| "str_join sep [x] = x"
| "str_join sep (x # y # ys) = x @ sep @ str_join sep (y # ys)"

text \<open>\<open>sub in s\<close> on strings (bytes).\<close>

fun str_contains :: "string \<Rightarrow> string \<Rightarrow> bool" where
  "str_contains sub [] = (sub = [])"
| "str_contains sub (y # ys) = (startswith (y # ys) sub \<or> str_contains sub ys)"

text \<open>
  The path algebra is that of \<open>posixpath\<close> (\<open>os.sep = '/'\<close>): \<open>os.path.join\<close>,
  \<open>os.path.dirname\<close> and \<open>os.path.splitext\<close> are pure string functions. The functions of
  \<open>os.path\<close> that read the file system or the process (\<open>exists\<close>, \<open>isdir\<close>,
  \<open>abspath\<close>, \<open>realpath\<close>, \<open>expanduser\<close>, \<open>normcase\<close>) are fields of the environment
  below.
\<close>

definition os_sep :: string where
  "os_sep = ''/''"

definition os_path_join :: "string \<Rightarrow> string \<Rightarrow> string" where
  "os_path_join a b =
     (if startswith b ''/'' then b
      else if a = [] \<or> endswith a ''/'' then a @ b
      else a @ ''/'' @ b)"

text \<open>\<open>os.path.join(a, *p)\<close>.\<close>

definition os_path_join_all :: "string \<Rightarrow> string list \<Rightarrow> string" where
  "os_path_join_all a p = foldl os_path_join a p"

text \<open>\<open>p[:p.rfind(c) + 1]\<close> and \<open>p[p.rfind(c) + 1:]\<close>.\<close>

definition upto_last :: "char \<Rightarrow> string \<Rightarrow> string" where
  "upto_last c p = rev (dropWhile (\<lambda>x. x \<noteq> c) (rev p))"

definition after_last :: "char \<Rightarrow> string \<Rightarrow> string" where
  "after_last c p = rev (takeWhile (\<lambda>x. x \<noteq> c) (rev p))"

definition rstrip :: "char \<Rightarrow> string \<Rightarrow> string" where
  "rstrip c p = rev (dropWhile (\<lambda>x. x = c) (rev p))"

definition os_path_dirname :: "string \<Rightarrow> string" where
  "os_path_dirname p =
     (let head = upto_last CHR ''/'' p
      in if head \<noteq> [] \<and> list_ex (\<lambda>x. x \<noteq> CHR ''/'') head then rstrip CHR ''/'' head
         else head)"

text \<open>
  \<open>os.path.splitext\<close>: the extension starts at the last dot of the last path component,
  unless only dots precede it there.
\<close>

definition os_path_splitext :: "string \<Rightarrow> string \<times> string" where
  "os_path_splitext p =
     (let tail = after_last CHR ''/'' p
      in if CHR ''.'' \<in> set tail
         then (let stem = butlast (upto_last CHR ''.'' tail)
               in if list_ex (\<lambda>x. x \<noteq> CHR ''.'') stem
                  then (upto_last CHR ''/'' p @ stem, CHR ''.'' # after_last CHR ''.'' tail)
                  else (p, []))
         else (p, []))"

section \<open>Data model\<close>

text \<open>The enumeration \<open>ModuleType\<close> and the type constants of \<open>imp\<close>.\<close>

datatype ModuleType =
  C_BUILTIN | C_EXTENSION | PKG_DIRECTORY | PY_CODERESOURCE | PY_COMPILED | PY_FROZEN
  | PY_RESOURCE | PY_SOURCE | PY_ZIPMODULE | PY_NAMESPACE

datatype imp_type =
  imp_C_BUILTIN | imp_C_EXTENSION | imp_PKG_DIRECTORY | imp_PY_COMPILED | imp_PY_FROZEN
  | imp_PY_SOURCE | imp_PY_RESOURCE | imp_PY_CODERESOURCE

text \<open>The dictionary \<open>_ImpTypes\<close>, read by \<open>_imp_type_to_module_type\<close>.\<close>

fun imp_type_to_module_type :: "imp_type \<Rightarrow> ModuleType" where
  "imp_type_to_module_type imp_C_BUILTIN = C_BUILTIN"
| "imp_type_to_module_type imp_C_EXTENSION = C_EXTENSION"
| "imp_type_to_module_type imp_PKG_DIRECTORY = PKG_DIRECTORY"
| "imp_type_to_module_type imp_PY_COMPILED = PY_COMPILED"
| "imp_type_to_module_type imp_PY_FROZEN = PY_FROZEN"
| "imp_type_to_module_type imp_PY_SOURCE = PY_SOURCE"
| "imp_type_to_module_type imp_PY_RESOURCE = PY_RESOURCE"
| "imp_type_to_module_type imp_PY_CODERESOURCE = PY_CODERESOURCE"

text \<open>
  The \<open>type\<close> field of a \<open>ModuleSpec\<close> holds a member of \<open>ModuleType\<close>, and in two places
  something else: \<open>PEP420SpecFinder\<close> stores \<open>None\<close> for a module that is not a namespace,
  and \<open>file_info_from_modpath\<close> stores the integer \<open>imp.PY_SOURCE\<close> for \<open>os.path\<close>.
\<close>

datatype spec_type = Enum ModuleType | ImpConst imp_type | NoType

text \<open>
  \<open>submodule_search_locations\<close> is \<open>None\<close>, a list of directories, or (from
  \<open>ZipFinder\<close>) the archive's path as one string.
\<close>

datatype locations = LNone | LStr string | LList "string list"

record ModuleSpec =
  name :: string
  type :: spec_type
  location :: "string option"
  origin :: "string option"
  submodule_search_locations :: locations

text \<open>The constructor \<open>ModuleSpec.__new__\<close> with its defaults.\<close>

definition new_ModuleSpec :: "string \<Rightarrow> spec_type \<Rightarrow> ModuleSpec" where
  "new_ModuleSpec n t =
     \<lparr>name = n, type = t, location = None, origin = None, submodule_search_locations = LNone\<rparr>"

datatype error =
  ImportError | NoSourceFile | AttributeError | TypeError | KeyError | IndexError
  | AssertionError | UnboundLocalError

section \<open>The environment and the process state\<close>

text \<open>
  An importer of \<open>sys.path_importer_cache\<close> is used through \<open>find_module\<close> only, and only
  the truth value of its result is read.
\<close>

type_synonym importer = "string \<Rightarrow> bool"

text \<open>What \<open>importlib.machinery.PathFinder.find_spec\<close> reports of a module it finds.\<close>

record machinery_spec =
  ms_name :: string
  ms_origin :: "string option"
  ms_submodule_search_locations :: "string list option"

text \<open>
  What \<open>os.walk\<close> finds at a directory: the sub-directories, by name and in the order
  of the listing, and the names of the other entries.
\<close>

datatype dir = Dir (subdirs: "(string \<times> dir) list") (files: "string list")

text \<open>
  Everything the module takes from the interpreter, the platform and the file system:
  the module-level constants computed at import time, and the library functions it calls.
  \<open>imp_find_module\<close> is \<open>imp.find_module\<close>: \<open>None\<close> stands for \<open>ImportError\<close>,
  otherwise it gives the file name and the type constant of the description.
  \<open>zipimport_zipimporter\<close> is the constructor \<open>zipimport.zipimporter\<close>, \<open>None\<close> standing
  for \<open>ZipImportError\<close>. \<open>open_read\<close> reads a file in binary mode, \<open>None\<close> standing for
  \<open>IOError\<close>. \<open>namespace_packages\<close> is \<open>pkg_resources._namespace_packages\<close>, or
  \<open>None\<close> when \<open>pkg_resources\<close> could not be imported. \<open>has_pep420\<close> is the test
  \<open>_HAS_MACHINERY and sys.version_info[:2] > (3, 3)\<close>, \<open>sys_py3\<close> the test
  \<open>sys.version_info > (3, 0)\<close>. \<open>os_walk_tree\<close> is the directory tree \<open>os.walk\<close> traverses
  from a path, \<open>None\<close> when the path is no directory (the walk is then empty).

  \<open>PathFinder_find_spec\<close> is \<open>importlib.machinery.PathFinder.find_spec\<close>. It asks
  the importer of every path entry it visits and records the importers it creates in
  \<open>sys.path_importer_cache\<close>, the dictionary that \<open>_precache_zipimporters\<close> and
  \<open>_search_zip\<close> use; so it is given that dictionary and returns it as it left it,
  next to the spec found (\<open>None\<close> when it finds none). \<open>imp_find_module\<close> is the
  function of Python 3's \<open>imp\<close>, which scans the directories itself and leaves that
  dictionary alone.
\<close>

record env =
  sys_path :: "string list"
  sys_py3 :: bool
  IS_JYTHON :: bool
  has_pep420 :: bool
  PY_SOURCE_EXTS :: "string list"
  EXT_LIB_DIR :: string
  STD_LIB_DIRS :: "string list"
  namespace_packages :: "string list option"
  os_path_file :: string
  os_path_exists :: "string \<Rightarrow> bool"
  os_path_isdir :: "string \<Rightarrow> bool"
  os_path_abspath :: "string \<Rightarrow> string"
  os_path_realpath :: "string \<Rightarrow> string"
  os_path_expanduser :: "string \<Rightarrow> string"
  os_path_normcase :: "string \<Rightarrow> string"
  open_read :: "string \<Rightarrow> string option"
  os_walk_tree :: "string \<Rightarrow> dir option"
  imp_find_module :: "string \<Rightarrow> locations \<Rightarrow> (string option \<times> imp_type) option"
  zipimport_zipimporter :: "string \<Rightarrow> importer option"
  PathFinder_find_spec ::
    "string \<Rightarrow> locations \<Rightarrow> (string \<times> importer option) list
      \<Rightarrow> machinery_spec option \<times> (string \<times> importer option) list"

text \<open>
  The mutable state of the process that the module reads and writes: the dictionary
  \<open>sys.path_importer_cache\<close> (in insertion order; a value may be \<open>None\<close>) and the
  dictionary \<open>_NORM_PATH_CACHE\<close>. \<open>zipimporter_calls\<close> is instrumentation: the arguments
  of the calls of \<open>zipimport.zipimporter\<close> that \<open>_precache_zipimporters\<close> makes, in
  order. No function reads it.
\<close>

record pstate =
  path_importer_cache :: "(string \<times> importer option) list"
  NORM_PATH_CACHE :: "string \<rightharpoonup> string"
  zipimporter_calls :: "string list"

section \<open>Path helpers\<close>

definition normalize_path :: "env \<Rightarrow> string \<Rightarrow> string" where
  "normalize_path e path = os_path_normcase e (os_path_abspath e path)"

definition canonicalize_path :: "env \<Rightarrow> string \<Rightarrow> string" where
  "canonicalize_path e path = os_path_realpath e (os_path_expanduser e path)"

text \<open>\<open>filename.partition(sep)[0]\<close> when \<open>sep\<close> occurs in \<open>filename\<close>.\<close>

fun before_first :: "string \<Rightarrow> string \<Rightarrow> string option" where
  "before_first sub [] = (if sub = [] then Some [] else None)"
| "before_first sub (y # ys) =
     (if startswith (y # ys) sub then Some []
      else map_option ((#) y) (before_first sub ys))"

definition path_from_filename :: "env \<Rightarrow> string \<Rightarrow> string" where
  "path_from_filename e filename =
     (if \<not> IS_JYTHON e then
        (if sys_py3 e then filename
         else if endswith filename ''.pyc'' then butlast filename
         else filename)
      else (case before_first ''$py.class'' filename of
              Some head \<Rightarrow> head @ ''.py''
            | None \<Rightarrow> filename))"

definition cache_normalize_path :: "env \<Rightarrow> string \<Rightarrow> pstate \<Rightarrow> string \<times> pstate" where
  "cache_normalize_path e path st =
     (case NORM_PATH_CACHE st path of
        Some r \<Rightarrow> (r, st)
      | None \<Rightarrow>
          if path = [] then (normalize_path e path, st)
          else (normalize_path e path,
                st\<lparr>NORM_PATH_CACHE := (NORM_PATH_CACHE st)(path \<mapsto> normalize_path e path)\<rparr>))"

text \<open>\<open>_has_init\<close>: the first existing \<open>__init__\<close> file of a directory, or \<open>None\<close>.\<close>

definition has_init :: "env \<Rightarrow> string \<Rightarrow> string option" where
  "has_init e directory =
     (let mod_or_pack = os_path_join directory ''__init__''
      in map_option (\<lambda>ext. mod_or_pack @ ''.'' @ ext)
           (find (\<lambda>ext. os_path_exists e (mod_or_pack @ ''.'' @ ext))
              (PY_SOURCE_EXTS e @ [''pyc'', ''pyo''])))"

definition is_namespace :: "env \<Rightarrow> string \<Rightarrow> bool" where
  "is_namespace e modname =
     (case namespace_packages e of None \<Rightarrow> False | Some ns \<Rightarrow> modname \<in> set ns)"

text \<open>
  \<open>_is_setuptools_namespace\<close> returns \<open>None\<close> after an \<open>IOError\<close>; its one caller only
  tests the result, so \<open>None\<close> is \<open>False\<close> here.
\<close>

definition is_setuptools_namespace :: "env \<Rightarrow> string \<Rightarrow> bool" where
  "is_setuptools_namespace e loc =
     (case open_read e (os_path_join loc ''__init__.py'') of
        None \<Rightarrow> False
      | Some contents \<Rightarrow>
          (let data = take 4096 contents;
               extend_path = (str_contains ''pkgutil'' data \<and> str_contains ''extend_path'' data);
               declare_namespace = (str_contains ''pkg_resources'' data
                                    \<and> str_contains ''declare_namespace(__name__)'' data)
           in extend_path \<or> declare_namespace))"

definition get_source_file :: "env \<Rightarrow> string \<Rightarrow> bool \<Rightarrow> error + string" where
  "get_source_file e filename include_no_ext =
     (let filename' = os_path_abspath e (path_from_filename e filename);
          base = fst (os_path_splitext filename');
          orig_ext = snd (os_path_splitext filename')
      in case find (\<lambda>ext. os_path_exists e (base @ ''.'' @ ext)) (PY_SOURCE_EXTS e) of
           Some ext \<Rightarrow> Inr (base @ ''.'' @ ext)
         | None \<Rightarrow>
             if include_no_ext \<and> orig_ext = [] \<and> os_path_exists e base then Inr base
             else Inl NoSourceFile)"

section \<open>The archive-handle cache\<close>

text \<open>
  \<open>_precache_zipimporters\<close>: for each entry of the path that is not yet a key of
  \<open>sys.path_importer_cache\<close>, \<open>zipimport.zipimporter\<close> is called; a handle is stored, a
  \<open>ZipImportError\<close> is skipped and nothing is stored.
\<close>

fun precache_loop :: "env \<Rightarrow> string list \<Rightarrow> pstate \<Rightarrow> pstate" where
  "precache_loop e [] st = st"
| "precache_loop e (entry_path # rest) st =
     (if entry_path \<in> set (map fst (path_importer_cache st)) then precache_loop e rest st
      else
        (let st1 = st\<lparr>zipimporter_calls := zipimporter_calls st @ [entry_path]\<rparr>
         in case zipimport_zipimporter e entry_path of
              None \<Rightarrow> precache_loop e rest st1
            | Some importer \<Rightarrow>
                precache_loop e rest
                  (st1\<lparr>path_importer_cache :=
                          path_importer_cache st1 @ [(entry_path, Some importer)]\<rparr>)))"

text \<open>\<open>path or sys.path\<close>: \<open>None\<close> and the empty list are both false.\<close>

definition or_sys_path :: "env \<Rightarrow> string list option \<Rightarrow> string list" where
  "or_sys_path e path = (case path of None \<Rightarrow> sys_path e | Some p \<Rightarrow> if p = [] then sys_path e else p)"

definition precache_zipimporters :: "env \<Rightarrow> string list option \<Rightarrow> pstate \<Rightarrow> pstate" where
  "precache_zipimporters e path st = precache_loop e (or_sys_path e path) st"

text \<open>
  \<open>_search_zip\<close> walks the items of the cache; \<open>modpath[0]\<close> raises \<open>IndexError\<close> on an
  empty list.
\<close>

fun search_zip ::
  "env \<Rightarrow> string list \<Rightarrow> (string \<times> importer option) list
    \<Rightarrow> error + (ModuleType \<times> string \<times> string)" where
  "search_zip e modpath [] = Inl ImportError"
| "search_zip e modpath ((filepath, importer) # rest) =
     (case importer of
        None \<Rightarrow> search_zip e modpath rest
      | Some imp \<Rightarrow>
          (case modpath of
             [] \<Rightarrow> Inl IndexError
           | m # _ \<Rightarrow>
               if imp m then
                 (if \<not> imp (str_join os_sep modpath) then Inl ImportError
                  else Inr (PY_ZIPMODULE,
                            os_path_abspath e filepath @ os_sep @ str_join os_sep modpath,
                            filepath))
               else search_zip e modpath rest))"

section \<open>The finders\<close>

datatype finder = ImpFinder | ZipFinder | PEP420SpecFinder

definition ImpFinder_find_module :: "env \<Rightarrow> string \<Rightarrow> locations \<Rightarrow> ModuleSpec option" where
  "ImpFinder_find_module e modname submodule_path =
     (case imp_find_module e modname submodule_path of
        None \<Rightarrow> None
      | Some (mp_filename, mp_desc2) \<Rightarrow>
          Some ((new_ModuleSpec modname (Enum (imp_type_to_module_type mp_desc2)))
                  \<lparr>location := mp_filename\<rparr>))"

text \<open>
  \<open>ZipFinder.find_module\<close> turns the \<open>ImportError\<close> of \<open>_search_zip\<close> into \<open>None\<close>; any
  other error passes through.
\<close>

definition ZipFinder_find_module ::
  "env \<Rightarrow> string \<Rightarrow> string list \<Rightarrow> (string \<times> importer option) list
    \<Rightarrow> error + ModuleSpec option" where
  "ZipFinder_find_module e modname module_parts zipimporters =
     (case search_zip e module_parts zipimporters of
        Inl err \<Rightarrow> if err = ImportError then Inr None else Inl err
      | Inr (file_type, filename, path) \<Rightarrow>
          Inr (Some \<lparr>name = modname, type = Enum file_type, location = Some filename,
                     origin = Some ''egg'', submodule_search_locations = LStr path\<rparr>))"

text \<open>
  \<open>PEP420SpecFinder.find_module\<close>, with the importer cache that \<open>PathFinder.find_spec\<close>
  leaves behind.
\<close>

definition PEP420SpecFinder_find_module ::
  "env \<Rightarrow> string \<Rightarrow> locations \<Rightarrow> (string \<times> importer option) list
    \<Rightarrow> ModuleSpec option \<times> (string \<times> importer option) list" where
  "PEP420SpecFinder_find_module e modname submodule_path cache =
     (case PathFinder_find_spec e modname submodule_path cache of
        (None, cache1) \<Rightarrow> (None, cache1)
      | (Some spec, cache1) \<Rightarrow>
          (Some \<lparr>name = ms_name spec,
                 type = (if ms_origin spec = Some ''namespace'' then Enum PY_NAMESPACE
                         else NoType),
                 location = (if ms_origin spec \<noteq> Some ''namespace'' then ms_origin spec
                             else None),
                 origin = ms_origin spec,
                 submodule_search_locations =
                   LList (case ms_submodule_search_locations spec of
                            None \<Rightarrow> [] | Some l \<Rightarrow> l)\<rparr>,
           cache1))"

text \<open>\<open>contribute_to_path\<close> of the three finders; \<open>ZipFinder\<close> inherits the base method.\<close>

fun contribute_to_path :: "env \<Rightarrow> finder \<Rightarrow> ModuleSpec \<Rightarrow> string list \<Rightarrow> locations" where
  "contribute_to_path e ImpFinder spec processed =
     (case location spec of
        None \<Rightarrow> LNone
      | Some loc \<Rightarrow>
          if is_setuptools_namespace e loc
          then LList (map (\<lambda>p. os_path_join_all p processed)
                        (filter (\<lambda>p. os_path_isdir e (os_path_join_all p processed))
                           (sys_path e)))
          else LList [loc])"
| "contribute_to_path e ZipFinder spec processed = LNone"
| "contribute_to_path e PEP420SpecFinder spec processed =
     (if type spec = Enum PY_NAMESPACE then submodule_search_locations spec else LNone)"

text \<open>
  \<open>_find_spec_with_path\<close>. Building the finders runs \<open>ZipFinder.__init__\<close>, hence
  \<open>_precache_zipimporters\<close>, before any finder is asked.
\<close>

definition find_spec_with_path ::
  "env \<Rightarrow> string list \<Rightarrow> string \<Rightarrow> string list \<Rightarrow> string list \<Rightarrow> locations \<Rightarrow> pstate
    \<Rightarrow> (error + finder \<times> ModuleSpec) \<times> pstate" where
  "find_spec_with_path e search_path modname module_parts processed submodule_path st =
     (let st1 = precache_zipimporters e (Some search_path) st
      in case ImpFinder_find_module e modname submodule_path of
           Some spec \<Rightarrow> (Inr (ImpFinder, spec), st1)
         | None \<Rightarrow>
             (case ZipFinder_find_module e modname module_parts (path_importer_cache st1) of
                Inl err \<Rightarrow> (Inl err, st1)
              | Inr (Some spec) \<Rightarrow> (Inr (ZipFinder, spec), st1)
              | Inr None \<Rightarrow>
                  if has_pep420 e then
                    (case PEP420SpecFinder_find_module e modname submodule_path
                            (path_importer_cache st1) of
                       (Some spec, cache1) \<Rightarrow>
                         (Inr (PEP420SpecFinder, spec), st1\<lparr>path_importer_cache := cache1\<rparr>)
                     | (None, cache1) \<Rightarrow>
                         (Inl ImportError, st1\<lparr>path_importer_cache := cache1\<rparr>))
                  else (Inl ImportError, st1)))"

text \<open>\<open>submodule_path or path\<close>.\<close>

definition locations_of :: "string list option \<Rightarrow> locations" where
  "locations_of path = (case path of None \<Rightarrow> LNone | Some p \<Rightarrow> LList p)"

fun or_path :: "locations \<Rightarrow> string list option \<Rightarrow> locations" where
  "or_path LNone path = locations_of path"
| "or_path (LStr s) path = (if s = [] then locations_of path else LStr s)"
| "or_path (LList l) path = (if l = [] then locations_of path else LList l)"

text \<open>
  The loop of \<open>_find_spec\<close> over the values of its lists: the components still to
  resolve, the processed ones, the current \<open>submodule_path\<close> and the last \<open>spec\<close>
  (unbound before the first round).
\<close>

fun find_spec_loop ::
  "env \<Rightarrow> string list \<Rightarrow> string list option \<Rightarrow> string list \<Rightarrow> string list \<Rightarrow> string list
    \<Rightarrow> locations \<Rightarrow> ModuleSpec option \<Rightarrow> pstate \<Rightarrow> (error + ModuleSpec) \<times> pstate" where
  "find_spec_loop e search_path path module_parts [] processed submodule_path spec st =
     (case spec of None \<Rightarrow> (Inl UnboundLocalError, st) | Some s \<Rightarrow> (Inr s, st))"
| "find_spec_loop e search_path path module_parts (modname # modpath) processed
       submodule_path spec st =
     (case find_spec_with_path e search_path modname module_parts processed
             (or_path submodule_path path) st of
        (Inl err, st1) \<Rightarrow> (Inl err, st1)
      | (Inr (finder, spec1), st1) \<Rightarrow>
          (let processed1 = processed @ [modname];
               submodule_path1 =
                 (if modpath \<noteq> [] then contribute_to_path e finder spec1 processed1
                  else submodule_path);
               spec2 =
                 (if type spec1 = Enum PKG_DIRECTORY
                  then spec1\<lparr>submodule_search_locations := submodule_path1\<rparr>
                  else spec1)
           in find_spec_loop e search_path path module_parts modpath processed1
                submodule_path1 (Some spec2) st1))"

definition find_spec ::
  "env \<Rightarrow> string list \<Rightarrow> string list option \<Rightarrow> pstate \<Rightarrow> (error + ModuleSpec) \<times> pstate" where
  "find_spec e modpath path st =
     find_spec_loop e (or_sys_path e path) path modpath modpath [] LNone None st"

section \<open>Resolving a dotted name\<close>

text \<open>
  The first part of \<open>_spec_from_modpath\<close> (up to the test of \<open>spec.type\<close>): the lookup
  under the context directory, which falls back to \<open>path\<close> on \<open>ImportError\<close>, and the local
  variable \<open>location\<close>, which stays \<open>None\<close> when there is no context.
\<close>

definition spec_from_modpath_lookup ::
  "env \<Rightarrow> string list \<Rightarrow> string list option \<Rightarrow> string option \<Rightarrow> pstate
    \<Rightarrow> (error + ModuleSpec \<times> string option) \<times> pstate" where
  "spec_from_modpath_lookup e modpath path context st =
     (case context of
        Some c \<Rightarrow>
          (case find_spec e modpath (Some [c]) st of
             (Inr spec, st1) \<Rightarrow> (Inr (spec, location spec), st1)
           | (Inl err, st1) \<Rightarrow>
               if err = ImportError then
                 (case find_spec e modpath path st1 of
                    (Inr spec, st2) \<Rightarrow> (Inr (spec, location spec), st2)
                  | (Inl err2, st2) \<Rightarrow> (Inl err2, st2))
               else (Inl err, st1))
      | None \<Rightarrow>
          (case find_spec e modpath path st of
             (Inr spec, st1) \<Rightarrow> (Inr (spec, None), st1)
           | (Inl err, st1) \<Rightarrow> (Inl err, st1)))"

text \<open>
  The second part of \<open>_spec_from_modpath\<close>, on the spec found. In the \<open>PY_COMPILED\<close>
  branch both \<open>return\<close> statements raise \<open>AttributeError\<close>: the first evaluates
  \<open>ModuleSpec.PY_SOURCE\<close>, and the class \<open>ModuleSpec\<close> (a named tuple of five fields)
  has no attribute \<open>PY_SOURCE\<close>; the second calls \<open>spec.replace\<close>, and a named tuple has
  the method \<open>_replace\<close>, no method \<open>replace\<close>. A location that is \<open>None\<close> is no string:
  \<open>get_source_file\<close> and \<open>_has_init\<close> then fail in \<open>os.path\<close> (a \<open>TypeError\<close> on
  Python 3, an \<open>AttributeError\<close> before).
\<close>

definition none_is_no_string :: "env \<Rightarrow> error" where
  "none_is_no_string e = (if sys_py3 e \<and> \<not> IS_JYTHON e then TypeError else AttributeError)"

definition spec_from_modpath_post ::
  "env \<Rightarrow> ModuleSpec \<Rightarrow> string option \<Rightarrow> error + ModuleSpec" where
  "spec_from_modpath_post e spec location0 =
     (if type spec = Enum PY_COMPILED then
        (case location spec of
           None \<Rightarrow> Inl (none_is_no_string e)
         | Some loc \<Rightarrow>
             (case get_source_file e loc False of
                Inr location1 \<Rightarrow> Inl AttributeError
              | Inl err \<Rightarrow> if err = NoSourceFile then Inl AttributeError else Inl err))
      else if type spec = Enum C_BUILTIN then Inr (spec\<lparr>location := None\<rparr>)
      else if type spec = Enum PKG_DIRECTORY then
        (case location spec of
           None \<Rightarrow> Inl (if sys_py3 e then TypeError else AttributeError)
         | Some loc \<Rightarrow> Inr (spec\<lparr>location := has_init e loc, type := Enum PY_SOURCE\<rparr>))
      else Inr spec)"

definition spec_from_modpath ::
  "env \<Rightarrow> string list \<Rightarrow> string list option \<Rightarrow> string option \<Rightarrow> pstate
    \<Rightarrow> (error + ModuleSpec) \<times> pstate" where
  "spec_from_modpath e modpath path context st =
     (if modpath = [] then (Inl AssertionError, st)
      else
        (case spec_from_modpath_lookup e modpath path context st of
           (Inl err, st1) \<Rightarrow> (Inl err, st1)
         | (Inr (spec, location0), st1) \<Rightarrow> (spec_from_modpath_post e spec location0, st1)))"

definition file_info_from_modpath ::
  "env \<Rightarrow> string list \<Rightarrow> string list option \<Rightarrow> string option \<Rightarrow> pstate
    \<Rightarrow> (error + ModuleSpec) \<times> pstate" where
  "file_info_from_modpath e modpath path context_file st =
     (let context = map_option os_path_dirname context_file
      in case modpath of
           [] \<Rightarrow> (Inl IndexError, st)
         | m # ms \<Rightarrow>
             if m = ''xml'' then
               (case spec_from_modpath e (''_xmlplus'' # ms) path context st of
                  (Inl err, st1) \<Rightarrow>
                    if err = ImportError then spec_from_modpath e modpath path context st1
                    else (Inl err, st1)
                | (Inr spec, st1) \<Rightarrow> (Inr spec, st1))
             else if modpath = [''os'', ''path''] then
               (Inr ((new_ModuleSpec ''os.path'' (ImpConst imp_PY_SOURCE))
                       \<lparr>location := Some (os_path_file e)\<rparr>), st)
             else spec_from_modpath e modpath path context st)"

definition file_from_modpath ::
  "env \<Rightarrow> string list \<Rightarrow> string list option \<Rightarrow> string option \<Rightarrow> pstate
    \<Rightarrow> (error + string option) \<times> pstate" where
  "file_from_modpath e modpath path context_file st =
     (case file_info_from_modpath e modpath path context_file st of
        (Inl err, st1) \<Rightarrow> (Inl err, st1)
      | (Inr spec, st1) \<Rightarrow> (Inr (location spec), st1))"

section \<open>Classifiers\<close>

text \<open>\<open>modname.split('.')[0]\<close>.\<close>

definition top_level :: "string \<Rightarrow> string" where
  "top_level modname = (case split_on CHR ''.'' modname of [] \<Rightarrow> [] | x # _ \<Rightarrow> x)"

text \<open>The loop of \<open>is_standard_module\<close> over \<open>std_path\<close>.\<close>

fun std_path_loop :: "env \<Rightarrow> string \<Rightarrow> string list \<Rightarrow> pstate \<Rightarrow> bool \<times> pstate" where
  "std_path_loop e filename [] st = (False, st)"
| "std_path_loop e filename (path # rest) st =
     (case cache_normalize_path e path st of
        (p, st1) \<Rightarrow> if startswith filename p then (True, st1)
                    else std_path_loop e filename rest st1)"

definition is_standard_module ::
  "env \<Rightarrow> string \<Rightarrow> string list option \<Rightarrow> pstate \<Rightarrow> (error + bool) \<times> pstate" where
  "is_standard_module e modname std_path st =
     (let modname1 = top_level modname
      in case file_from_modpath e [modname1] None None st of
           (Inl err, st1) \<Rightarrow> if err = ImportError then (Inr False, st1) else (Inl err, st1)
         | (Inr None, st1) \<Rightarrow> (Inr (\<not> is_namespace e modname1), st1)
         | (Inr (Some filename), st1) \<Rightarrow>
             (let filename1 = normalize_path e filename
              in case cache_normalize_path e (EXT_LIB_DIR e) st1 of
                   (ext_lib, st2) \<Rightarrow>
                     if startswith filename1 ext_lib then (Inr False, st2)
                     else (case std_path_loop e filename1
                                  (case std_path of None \<Rightarrow> STD_LIB_DIRS e | Some p \<Rightarrow> p)
                                  st2 of
                             (b, st3) \<Rightarrow> (Inr b, st3))))"

definition is_relative :: "env \<Rightarrow> string \<Rightarrow> string \<Rightarrow> bool" where
  "is_relative e modname from_file =
     (let from_file1 = (if \<not> os_path_isdir e from_file then os_path_dirname from_file
                        else from_file)
      in if from_file1 \<in> set (sys_path e) then False
         else (case imp_find_module e (top_level modname) (LList [from_file1]) of
                 Some found \<Rightarrow> True
               | None \<Rightarrow> False))"

section \<open>From a file to its dotted name\<close>

text \<open>The loop of \<open>check_modpath_has_init\<close>; \<open>modpath\<close> is the list built so far.\<close>

fun check_modpath_loop :: "env \<Rightarrow> string \<Rightarrow> string list \<Rightarrow> string list \<Rightarrow> bool" where
  "check_modpath_loop e path modpath [] = True"
| "check_modpath_loop e path modpath (part # rest) =
     (let modpath1 = modpath @ [part];
          path1 = os_path_join path part
      in if has_init e path1 = None then
           (if \<not> is_namespace e (str_join ''.'' modpath1) then False
            else check_modpath_loop e path1 modpath1 rest)
         else check_modpath_loop e path1 modpath1 rest)"

definition check_modpath_has_init :: "env \<Rightarrow> string \<Rightarrow> string list \<Rightarrow> bool" where
  "check_modpath_has_init e path mod_path = check_modpath_loop e path [] mod_path"

text \<open>\<open>[pkg for pkg in s.split(os.sep) if pkg]\<close>.\<close>

definition path_components :: "string \<Rightarrow> string list" where
  "path_components s = filter (\<lambda>pkg. pkg \<noteq> []) (split_on CHR ''/'' s)"

text \<open>
  The first loop of \<open>modpath_from_file_with_callback\<close>, over the keys of the dictionary
  \<open>extrapath\<close> (an association list with distinct keys). \<open>None\<close>: the loop ended without
  a \<open>return\<close>. The package name is looked up under the canonicalized key, which raises
  \<open>KeyError\<close> when that is no key of the dictionary.
\<close>

fun extrapath_loop ::
  "env \<Rightarrow> (string \<Rightarrow> string list \<Rightarrow> bool) \<Rightarrow> string \<Rightarrow> (string \<times> string) list \<Rightarrow> string list
    \<Rightarrow> (error + string list) option" where
  "extrapath_loop e is_package_cb base extrapath [] = None"
| "extrapath_loop e is_package_cb base extrapath (key # keys) =
     (let cpath = canonicalize_path e key;
          path = os_path_abspath e cpath
      in if path \<noteq> []
            \<and> os_path_normcase e (take (length path) base) = os_path_normcase e path
         then
           (let submodpath = path_components (drop (length path) base)
            in if is_package_cb path (butlast submodpath) then
                 (case map_of extrapath cpath of
                    None \<Rightarrow> Some (Inl KeyError)
                  | Some package \<Rightarrow> Some (Inr (split_on CHR ''.'' package @ submodpath)))
               else extrapath_loop e is_package_cb base extrapath keys)
         else extrapath_loop e is_package_cb base extrapath keys)"

text \<open>The second loop, over \<open>sys.path\<close>.\<close>

fun sys_path_loop ::
  "env \<Rightarrow> (string \<Rightarrow> string list \<Rightarrow> bool) \<Rightarrow> string \<Rightarrow> string list \<Rightarrow> pstate
    \<Rightarrow> string list option \<times> pstate" where
  "sys_path_loop e is_package_cb base [] st = (None, st)"
| "sys_path_loop e is_package_cb base (p # rest) st =
     (case cache_normalize_path e (canonicalize_path e p) st of
        (path, st1) \<Rightarrow>
          if path \<noteq> [] \<and> startswith (os_path_normcase e base) path then
            (let modpath = path_components (drop (length path) base)
             in if is_package_cb path (butlast modpath) then (Some modpath, st1)
                else sys_path_loop e is_package_cb base rest st1)
          else sys_path_loop e is_package_cb base rest st1)"

definition modpath_from_file_with_callback ::
  "env \<Rightarrow> string \<Rightarrow> (string \<times> string) list option \<Rightarrow> (string \<Rightarrow> string list \<Rightarrow> bool) \<Rightarrow> pstate
    \<Rightarrow> (error + string list) \<times> pstate" where
  "modpath_from_file_with_callback e filename extrapath is_package_cb st =
     (let filename1 = path_from_filename e filename;
          filename2 = os_path_realpath e (os_path_expanduser e filename1);
          base = fst (os_path_splitext filename2)
      in case (case extrapath of
                 None \<Rightarrow> None
               | Some xp \<Rightarrow> extrapath_loop e is_package_cb base xp (map fst xp)) of
           Some r \<Rightarrow> (r, st)
         | None \<Rightarrow>
             (case sys_path_loop e is_package_cb base (sys_path e) st of
                (Some modpath, st1) \<Rightarrow> (Inr modpath, st1)
              | (None, st1) \<Rightarrow> (Inl ImportError, st1)))"

definition modpath_from_file ::
  "env \<Rightarrow> string \<Rightarrow> (string \<times> string) list option \<Rightarrow> pstate
    \<Rightarrow> (error + string list) \<times> pstate" where
  "modpath_from_file e filename extrapath st =
     modpath_from_file_with_callback e filename extrapath (check_modpath_has_init e) st"

section \<open>Listing the files of a package\<close>





section \<open>The list objects of \<open>_find_spec\<close>\<close>

text \<open>
  Python lists are objects, and \<open>_find_spec\<close> empties the list it iterates over with
  \<open>pop(0)\<close>. To see which object it empties, the lists live in a store: a reference is an
  address, \<open>cells\<close> gives the contents of the list at an address, and the addresses below
  \<open>next_ref\<close> are those in use.
\<close>

type_synonym ref = nat

record list_store =
  cells :: "ref \<Rightarrow> string list"
  next_ref :: ref

text \<open>A new list object (\<open>xs[:]\<close> and \<open>[]\<close> both make one).\<close>

definition new_list :: "string list \<Rightarrow> list_store \<Rightarrow> ref \<times> list_store" where
  "new_list xs h = (next_ref h, h\<lparr>cells := (cells h)(next_ref h := xs), next_ref := Suc (next_ref h)\<rparr>)"

text \<open>\<open>r.pop(0)\<close> on a list that is not empty, and \<open>r.append(x)\<close>.\<close>

definition list_pop0 :: "ref \<Rightarrow> list_store \<Rightarrow> list_store" where
  "list_pop0 r h = h\<lparr>cells := (cells h)(r := tl (cells h r))\<rparr>"

definition list_append :: "ref \<Rightarrow> string \<Rightarrow> list_store \<Rightarrow> list_store" where
  "list_append r x h = h\<lparr>cells := (cells h)(r := cells h r @ [x])\<rparr>"

text \<open>
  The \<open>while modpath:\<close> loop on the objects. The three lists are given by reference; the
  finders read \<open>module_parts\<close> and \<open>processed\<close> and write neither. When \<open>modpath\<close> and
  \<open>processed\<close> are the same object the loop never ends, so the rounds are counted down
  from a bound and \<open>None\<close> means the bound was reached.
\<close>

fun find_spec_obj_loop ::
  "nat \<Rightarrow> env \<Rightarrow> string list \<Rightarrow> string list option \<Rightarrow> ref \<Rightarrow> ref \<Rightarrow> ref
    \<Rightarrow> locations \<Rightarrow> ModuleSpec option \<Rightarrow> list_store \<Rightarrow> pstate
    \<Rightarrow> ((error + ModuleSpec) \<times> list_store \<times> pstate) option" where
  "find_spec_obj_loop 0 e search_path path module_parts modpath processed
       submodule_path spec h st = None"
| "find_spec_obj_loop (Suc n) e search_path path module_parts modpath processed
       submodule_path spec h st =
     (case cells h modpath of
        [] \<Rightarrow>
          Some ((case spec of None \<Rightarrow> Inl UnboundLocalError | Some s \<Rightarrow> Inr s), h, st)
      | modname # rest \<Rightarrow>
          (let h1 = list_pop0 modpath h
           in case find_spec_with_path e search_path modname (cells h1 module_parts)
                     (cells h1 processed) (or_path submodule_path path) st of
                (Inl err, st1) \<Rightarrow> Some (Inl err, h1, st1)
              | (Inr (finder, spec1), st1) \<Rightarrow>
                  (let h2 = list_append processed modname h1;
                       submodule_path1 =
                         (if cells h2 modpath \<noteq> []
                          then contribute_to_path e finder spec1 (cells h2 processed)
                          else submodule_path);
                       spec2 =
                         (if type spec1 = Enum PKG_DIRECTORY
                          then spec1\<lparr>submodule_search_locations := submodule_path1\<rparr>
                          else spec1)
                   in find_spec_obj_loop n e search_path path module_parts modpath processed
                        submodule_path1 (Some spec2) h2 st1)))"

text \<open>
  \<open>_find_spec\<close> called with a reference to the caller's list: \<open>modpath = modpath[:]\<close>,
  \<open>module_parts = modpath[:]\<close> and \<open>processed = []\<close> make three new objects, and the loop
  runs on them. One round more than the list has components is enough.
\<close>

definition find_spec_obj ::
  "env \<Rightarrow> ref \<Rightarrow> string list option \<Rightarrow> list_store \<Rightarrow> pstate
    \<Rightarrow> ((error + ModuleSpec) \<times> list_store \<times> pstate) option" where
  "find_spec_obj e modpath_arg path h st =
     (case new_list (cells h modpath_arg) h of
        (modpath, h1) \<Rightarrow>
          (case new_list (cells h1 modpath) h1 of
             (module_parts, h2) \<Rightarrow>
               (case new_list [] h2 of
                  (processed, h3) \<Rightarrow>
                    find_spec_obj_loop (Suc (length (cells h3 modpath))) e
                      (or_sys_path e path) path module_parts modpath processed
                      LNone None h3 st)))"

section \<open>Example environments\<close>

text \<open>
  A bare environment: CPython 3 on a POSIX platform, one search-path root, an empty file
  system, identity path normalisation, and finders that find nothing. The examples below
  change the fields they need.
\<close>

definition bare_env :: env where
  "bare_env =
     \<lparr>sys_path = [''/lib''], sys_py3 = True, IS_JYTHON = False, has_pep420 = False,
      PY_SOURCE_EXTS = [''py''], EXT_LIB_DIR = ''/lib/site-packages'',
      STD_LIB_DIRS = [''/lib''], namespace_packages = None,
      os_path_file = ''/lib/posixpath.py'',
      os_path_exists = (\<lambda>p. False), os_path_isdir = (\<lambda>p. False),
      os_path_abspath = (\<lambda>p. p), os_path_realpath = (\<lambda>p. p),
      os_path_expanduser = (\<lambda>p. p), os_path_normcase = (\<lambda>p. p),
      open_read = (\<lambda>p. None), os_walk_tree = (\<lambda>p. None),
      imp_find_module = (\<lambda>n p. None), zipimport_zipimporter = (\<lambda>p. None),
      PathFinder_find_spec = (\<lambda>n p cache. (None, cache))\<rparr>"

definition empty_state :: pstate where
  "empty_state = \<lparr>path_importer_cache = [], NORM_PATH_CACHE = Map.empty, zipimporter_calls = []\<rparr>"

text \<open>
  A package directory \<open>/lib/pkg\<close> that \<open>imp.find_module\<close> reports: first the report
  alone, the file system still empty; then with \<open>__init__.py\<close> in the directory; then
  with \<open>__init__.py\<close> and \<open>__init__.pyc\<close>; then on Jython, where the directory is a package by its compiled \<open>__init__$py.class\<close> and
  holds no \<open>__init__.py\<close>, \<open>__init__.pyc\<close> or \<open>__init__.pyo\<close>.
\<close>

definition env_pkg_no_init :: env where
  "env_pkg_no_init =
     bare_env\<lparr>imp_find_module :=
       (\<lambda>n p. if n = ''pkg'' \<and> p = LNone then Some (Some ''/lib/pkg'', imp_PKG_DIRECTORY)
              else None)\<rparr>"

definition env_pkg_init :: env where
  "env_pkg_init = env_pkg_no_init\<lparr>os_path_exists := (\<lambda>p. p = ''/lib/pkg/__init__.py'')\<rparr>"

definition env_pkg_both :: env where
  "env_pkg_both =
     env_pkg_no_init\<lparr>os_path_exists :=
                       (\<lambda>p. p = ''/lib/pkg/__init__.py'' \<or> p = ''/lib/pkg/__init__.pyc'')\<rparr>"

definition env_pkg_jython :: env where
  "env_pkg_jython =
     env_pkg_no_init\<lparr>sys_py3 := False, IS_JYTHON := True,
                     os_path_exists := (\<lambda>p. p = ''/lib/pkg/__init__$py.class'')\<rparr>"

text \<open>
  A compiled module \<open>/lib/m.pyc\<close> that \<open>imp.find_module\<close> reports, without and with
  the source file \<open>/lib/m.py\<close> beside it.
\<close>

definition env_compiled_only :: env where
  "env_compiled_only =
     bare_env\<lparr>imp_find_module :=
       (\<lambda>n p. if n = ''m'' \<and> p = LNone then Some (Some ''/lib/m.pyc'', imp_PY_COMPILED)
              else None)\<rparr>"

definition env_compiled_and_source :: env where
  "env_compiled_and_source = env_compiled_only\<lparr>os_path_exists := (\<lambda>p. p = ''/lib/m.py'')\<rparr>"

text \<open>
  An archive \<open>/eggs/a.egg\<close> on the search path whose importer finds the package
  \<open>pkg\<close> and its module \<open>pkg/m\<close>, as the cache holds it after \<open>_precache_zipimporters\<close>.
\<close>

definition egg_importer :: importer where
  "egg_importer n = (n = ''pkg'' \<or> n = ''pkg/m'')"

definition egg_cache :: "(string \<times> importer option) list" where
  "egg_cache = [(''/lib'', None), (''/eggs/a.egg'', Some egg_importer)]"

text \<open>The same archive as a second entry of the search path, not yet opened.\<close>

definition env_egg :: env where
  "env_egg =
     bare_env\<lparr>sys_path := [''/lib'', ''/eggs/a.egg'', ''/eggs/a.egg''],
              zipimport_zipimporter :=
                (\<lambda>p. if p = ''/eggs/a.egg'' then Some egg_importer else None)\<rparr>"

text \<open>
  A third-party module \<open>/lib/site-packages/requests.py\<close>: it lies under \<open>EXT_LIB_DIR\<close>
  and under the standard directory \<open>/lib\<close> as well.
\<close>

definition env_site_packages :: env where
  "env_site_packages =
     bare_env\<lparr>imp_find_module :=
       (\<lambda>n p. if n = ''requests'' \<and> p = LNone
              then Some (Some ''/lib/site-packages/requests.py'', imp_PY_SOURCE)
              else None)\<rparr>"

text \<open>
  The search path is \<open>/a\<close>; \<open>/a/b\<close> is a directory that holds the module \<open>m\<close>, and
  \<open>/a/c.py\<close> is a file.
\<close>

definition env_from_directory :: env where
  "env_from_directory =
     bare_env\<lparr>sys_path := [''/a''],
              os_path_isdir := (\<lambda>p. p = ''/a'' \<or> p = ''/a/b''),
              imp_find_module :=
                (\<lambda>n p. if n = ''m'' \<and> p = LList [''/a/b'']
                       then Some (Some ''/a/b/m.py'', imp_PY_SOURCE)
                       else None)\<rparr>"

text \<open>
  The extra directory \<open>/x\<close> contributes to the package \<open>pkg\<close>; it holds the package
  \<open>a\<close> with the module \<open>b\<close>.
\<close>

definition env_extra :: env where
  "env_extra = bare_env\<lparr>os_path_exists := (\<lambda>p. p = ''/x/a/__init__.py'' \<or> p = ''/x/a/b.py'')\<rparr>"

text \<open>
  The test of the first loop of \<open>modpath_from_file_with_callback\<close> on one key of
  \<open>extrapath\<close>: the canonicalized root is not empty, it is a prefix of \<open>base\<close> (up to
  \<open>normcase\<close>), and the callback accepts the remainder without its last component.
\<close>

definition extra_root_accepted ::
  "env \<Rightarrow> (string \<Rightarrow> string list \<Rightarrow> bool) \<Rightarrow> string \<Rightarrow> string \<Rightarrow> bool" where
  "extra_root_accepted e is_package_cb base key =
     (let path = os_path_abspath e (canonicalize_path e key)
      in path \<noteq> []
         \<and> os_path_normcase e (take (length path) base) = os_path_normcase e path
         \<and> is_package_cb path (butlast (path_components (drop (length path) base))))"

text \<open>A store with one list, the caller's, at address \<open>0\<close>.\<close>

definition caller_store :: "string list \<Rightarrow> list_store" where
  "caller_store xs = \<lparr>cells = (\<lambda>r. if r = 0 then xs else []), next_ref = 1\<rparr>"

section \<open>The file system seen by the walk\<close>












section \<open>Evaluating the model\<close>

lemmas resolver_defs =
  spec_from_modpath_def spec_from_modpath_lookup_def spec_from_modpath_post_def
  find_spec_def find_spec_with_path_def or_sys_path_def precache_zipimporters_def
  ImpFinder_find_module_def ZipFinder_find_module_def PEP420SpecFinder_find_module_def
  new_ModuleSpec_def locations_of_def get_source_file_def path_from_filename_def
  none_is_no_string_def file_info_from_modpath_def file_from_modpath_def

lemmas path_defs =
  os_path_splitext_def os_path_dirname_def after_last_def upto_last_def rstrip_def
  has_init_def os_path_join_def os_path_join_all_def startswith_def endswith_def
  os_sep_def path_components_def normalize_path_def canonicalize_path_def

lemmas example_defs = bare_env_def empty_state_def

section \<open>Post-processing of the resolved spec\<close>

lemma has_init_None:
  "has_init e d = None \<longleftrightarrow>
     list_all (\<lambda>ext. \<not> os_path_exists e (os_path_join d ''__init__'' @ ''.'' @ ext))
       (PY_SOURCE_EXTS e @ [''pyc'', ''pyo''])"
  unfolding has_init_def Let_def list_all_iff by (simp only: option.map_disc_iff find_None_iff) blast

lemma find_first:
  "find P xs = Some x \<Longrightarrow> \<exists>pre post. xs = pre @ x # post \<and> P x \<and> list_all (\<lambda>y. \<not> P y) pre"
proof (induction xs)
  case Nil
  then show ?case by simp
next
  case (Cons a xs)
  show ?case
  proof (cases "P a")
    case True
    with Cons.prems have "a = x" by simp
    with True show ?thesis by (intro exI [of _ "[]"] exI [of _ xs]) simp
  next
    case False
    with Cons.prems have "find P xs = Some x" by simp
    from Cons.IH [OF this] obtain pre post
      where "xs = pre @ x # post" "P x" "list_all (\<lambda>y. \<not> P y) pre" by blast
    with False show ?thesis by (intro exI [of _ "a # pre"] exI [of _ post]) simp
  qed
qed

lemma has_init_first:
  assumes "has_init e d = Some init"
  shows "\<exists>pre ext post.
           PY_SOURCE_EXTS e @ [''pyc'', ''pyo''] = pre @ ext # post
           \<and> init = os_path_join d ''__init__'' @ ''.'' @ ext
           \<and> os_path_exists e init
           \<and> list_all (\<lambda>x. \<not> os_path_exists e (os_path_join d ''__init__'' @ ''.'' @ x)) pre"
proof -
  define f where "f = (\<lambda>ext. os_path_join d ''__init__'' @ ''.'' @ ext)"
  from assms obtain ext
    where fd: "find (\<lambda>ext. os_path_exists e (f ext)) (PY_SOURCE_EXTS e @ [''pyc'', ''pyo''])
                 = Some ext"
      and i: "init = f ext"
    unfolding has_init_def Let_def f_def by blast
  from find_first [OF fd] obtain pre post
    where "PY_SOURCE_EXTS e @ [''pyc'', ''pyo''] = pre @ ext # post"
      "os_path_exists e (f ext)" "list_all (\<lambda>y. \<not> os_path_exists e (f y)) pre"
    by blast
  with i show ?thesis unfolding f_def by blast
qed

text \<open>
  Claim C1, as the code has it. When the lookup of \<open>_spec_from_modpath\<close> returns a spec of
  kind \<open>PKG_DIRECTORY\<close> located at a directory, the result is that spec with kind
  \<open>PY_SOURCE\<close> and with the location \<open>_has_init\<close> gives. That is the first file that
  exists among \<open>__init__.<ext>\<close>, the extensions taken in the order of the source
  extensions, then \<open>pyc\<close>, then \<open>pyo\<close>: no candidate before it exists. When none of them
  exists the location is \<open>None\<close>, and the spec is returned all the same.
\<close>

theorem C1_package_directory_becomes_source:
  assumes "modpath \<noteq> []"
    and "spec_from_modpath_lookup e modpath path context st = (Inr (spec, location0), st1)"
    and "type spec = Enum PKG_DIRECTORY"
    and "location spec = Some directory"
  shows "spec_from_modpath e modpath path context st
           = (Inr (spec\<lparr>location := has_init e directory, type := Enum PY_SOURCE\<rparr>), st1)
         \<and> (case has_init e directory of
               None \<Rightarrow>
                 list_all (\<lambda>ext. \<not> os_path_exists e
                                     (os_path_join directory ''__init__'' @ ''.'' @ ext))
                   (PY_SOURCE_EXTS e @ [''pyc'', ''pyo''])
             | Some init \<Rightarrow>
                 (\<exists>pre ext post.
                    PY_SOURCE_EXTS e @ [''pyc'', ''pyo''] = pre @ ext # post
                    \<and> init = os_path_join directory ''__init__'' @ ''.'' @ ext
                    \<and> os_path_exists e init
                    \<and> list_all (\<lambda>x. \<not> os_path_exists e
                                        (os_path_join directory ''__init__'' @ ''.'' @ x))
                        pre))"
proof -
  have "spec_from_modpath_post e spec location0
          = Inr (spec\<lparr>location := has_init e directory, type := Enum PY_SOURCE\<rparr>)"
    using assms(3,4) by (simp add: spec_from_modpath_post_def)
  then have first: "spec_from_modpath e modpath path context st
           = (Inr (spec\<lparr>location := has_init e directory, type := Enum PY_SOURCE\<rparr>), st1)"
    using assms(1,2) by (simp add: spec_from_modpath_def)
  have second: "(case has_init e directory of
               None \<Rightarrow>
                 list_all (\<lambda>ext. \<not> os_path_exists e
                                     (os_path_join directory ''__init__'' @ ''.'' @ ext))
                   (PY_SOURCE_EXTS e @ [''pyc'', ''pyo''])
             | Some init \<Rightarrow>
                 (\<exists>pre ext post.
                    PY_SOURCE_EXTS e @ [''pyc'', ''pyo''] = pre @ ext # post
                    \<and> init = os_path_join directory ''__init__'' @ ''.'' @ ext
                    \<and> os_path_exists e init
                    \<and> list_all (\<lambda>x. \<not> os_path_exists e
                                        (os_path_join directory ''__init__'' @ ''.'' @ x))
                        pre))"
  proof (cases "has_init e directory")
    case None
    then show ?thesis using has_init_None [of e directory] by simp
  next
    case (Some init)
    then show ?thesis using has_init_first [of e directory init] by simp
  qed
  from first second show ?thesis by (rule conjI)
qed

text \<open>
  A directory that holds both \<open>__init__.py\<close> and \<open>__init__.pyc\<close>: the location is the
  source file, the first in the order.
\<close>

theorem C1_package_directory_becomes_source_witness:
  "spec_from_modpath env_pkg_both [''pkg''] None None empty_state
     = (Inr \<lparr>name = ''pkg'', type = Enum PY_SOURCE, location = Some ''/lib/pkg/__init__.py'',
             origin = None, submodule_search_locations = LNone\<rparr>,
        empty_state\<lparr>zipimporter_calls := [''/lib'']\<rparr>)
   \<and> os_path_exists env_pkg_both ''/lib/pkg/__init__.py''
   \<and> os_path_exists env_pkg_both ''/lib/pkg/__init__.pyc''"
proof -
  let ?spec = "\<lparr>name = ''pkg'', type = Enum PKG_DIRECTORY, location = Some ''/lib/pkg'',
                 origin = None, submodule_search_locations = LNone\<rparr>"
  let ?st1 = "empty_state\<lparr>zipimporter_calls := [''/lib'']\<rparr>"
  have ne: "[''pkg''] \<noteq> ([] :: string list)" by simp
  have lk: "spec_from_modpath_lookup env_pkg_both [''pkg''] None None empty_state
              = (Inr (?spec, None), ?st1)"
    by (simp add: resolver_defs example_defs env_pkg_both_def env_pkg_no_init_def)
  have ty: "type ?spec = Enum PKG_DIRECTORY" by simp
  have lo: "location ?spec = Some ''/lib/pkg''" by simp
  have hi: "has_init env_pkg_both ''/lib/pkg'' = Some ''/lib/pkg/__init__.py''"
    by (simp add: path_defs example_defs env_pkg_both_def env_pkg_no_init_def)
  show ?thesis
    using C1_package_directory_becomes_source [OF ne lk ty lo] hi
    by (simp add: env_pkg_both_def)
qed

text \<open>
  On Jython the package directory \<open>/lib/pkg\<close> holds \<open>__init__$py.class\<close> only.
  \<open>_has_init\<close> finds none of its candidates, and the resolution does not fail: it
  returns a spec of kind \<open>PY_SOURCE\<close> whose location is \<open>None\<close>.
\<close>

theorem C1_no_init_counterexample:
  "IS_JYTHON env_pkg_jython
   \<and> os_path_exists env_pkg_jython ''/lib/pkg/__init__$py.class''
   \<and> has_init env_pkg_jython ''/lib/pkg'' = None
   \<and> fst (spec_from_modpath_lookup env_pkg_jython [''pkg''] None None empty_state)
       = Inr (\<lparr>name = ''pkg'', type = Enum PKG_DIRECTORY, location = Some ''/lib/pkg'',
                origin = None, submodule_search_locations = LNone\<rparr>, None)
   \<and> fst (spec_from_modpath env_pkg_jython [''pkg''] None None empty_state)
       = Inr \<lparr>name = ''pkg'', type = Enum PY_SOURCE, location = None, origin = None,
              submodule_search_locations = LNone\<rparr>"
  by (simp add: resolver_defs path_defs example_defs env_pkg_jython_def env_pkg_no_init_def)

text \<open>
  Claim C2. The chain lookup returns the compiled module \<open>/lib/m.pyc\<close>, no \<open>/lib/m.py\<close>
  exists, so \<open>get_source_file\<close> raises \<open>NoSourceFile\<close>; the handler then calls
  \<open>spec.replace\<close>, which a named tuple does not have, and \<open>_spec_from_modpath\<close> raises
  \<open>AttributeError\<close> where the compiled spec was to be returned.
\<close>

theorem C2_compiled_without_source_raises:
  "fst (spec_from_modpath_lookup env_compiled_only [''m''] None None empty_state)
     = Inr (\<lparr>name = ''m'', type = Enum PY_COMPILED, location = Some ''/lib/m.pyc'',
              origin = None, submodule_search_locations = LNone\<rparr>, None)
   \<and> get_source_file env_compiled_only ''/lib/m.pyc'' False = Inl NoSourceFile
   \<and> fst (spec_from_modpath env_compiled_only [''m''] None None empty_state)
       = Inl AttributeError"
  by (simp add: resolver_defs path_defs example_defs env_compiled_only_def)

text \<open>
  Claim C3. The chain lookup returns the compiled module \<open>/lib/m.pyc\<close> and
  \<open>get_source_file\<close> finds \<open>/lib/m.py\<close>; building the new spec evaluates
  \<open>ModuleSpec.PY_SOURCE\<close>, an attribute the class does not have, and
  \<open>_spec_from_modpath\<close> raises \<open>AttributeError\<close> where the source spec was to be returned.
\<close>

theorem C3_compiled_with_source_raises:
  "fst (spec_from_modpath_lookup env_compiled_and_source [''m''] None None empty_state)
     = Inr (\<lparr>name = ''m'', type = Enum PY_COMPILED, location = Some ''/lib/m.pyc'',
              origin = None, submodule_search_locations = LNone\<rparr>, None)
   \<and> get_source_file env_compiled_and_source ''/lib/m.pyc'' False = Inr ''/lib/m.py''
   \<and> fst (spec_from_modpath env_compiled_and_source [''m''] None None empty_state)
       = Inl AttributeError"
  by (simp add: resolver_defs path_defs example_defs env_compiled_only_def
      env_compiled_and_source_def)

section \<open>The archive strategy\<close>

lemma search_zip_found:
  assumes "search_zip e modpath cache = Inr (file_type, filename, filepath)"
  shows "file_type = PY_ZIPMODULE
         \<and> filename = os_path_abspath e filepath @ os_sep @ str_join os_sep modpath
         \<and> (\<exists>imp. (filepath, Some imp) \<in> set cache \<and> imp (str_join os_sep modpath))"
  using assms
proof (induction cache)
  case Nil
  then show ?case by simp
next
  case (Cons entry cache)
  obtain fp importer where entry: "entry = (fp, importer)" by (cases entry)
  show ?case
  proof (cases importer)
    case None
    with Cons entry show ?thesis by auto
  next
    case (Some imp)
    show ?thesis
    proof (cases modpath)
      case Nil
      with Cons.prems entry Some show ?thesis by simp
    next
      case (Cons m ms)
      show ?thesis
      proof (cases "imp m")
        case True
        with Cons.prems entry Some Cons show ?thesis
          by (auto split: if_splits)
      next
        case False
        with Cons.prems entry Some Cons have "search_zip e modpath cache = Inr (file_type, filename, filepath)"
          by simp
        with Cons.IH show ?thesis by auto
      qed
    qed
  qed
qed

text \<open>
  Claim C4, as the code has it. A spec that \<open>ZipFinder.find_module\<close> returns has kind
  \<open>PY_ZIPMODULE\<close>, the component as its name, the origin \<open>'egg'\<close>, and for some archive
  of the cache whose importer finds the member, the location
  \<open>abspath(archive) + '/' + '/'.join(module_parts)\<close>; the archive's path is stored in
  \<open>submodule_search_locations\<close>.
\<close>

theorem C4_zip_descriptor:
  assumes "ZipFinder_find_module e modname module_parts zipimporters = Inr (Some spec)"
  shows "type spec = Enum PY_ZIPMODULE \<and> name spec = modname \<and> origin spec = Some ''egg''
         \<and> (\<exists>archive imp. (archive, Some imp) \<in> set zipimporters
               \<and> imp (str_join ''/'' module_parts)
               \<and> location spec
                   = Some (os_path_abspath e archive @ ''/'' @ str_join ''/'' module_parts)
               \<and> submodule_search_locations spec = LStr archive)"
proof -
  from assms obtain file_type filename filepath
    where sz: "search_zip e module_parts zipimporters = Inr (file_type, filename, filepath)"
      and sp: "spec = \<lparr>name = modname, type = Enum file_type, location = Some filename,
                       origin = Some ''egg'', submodule_search_locations = LStr filepath\<rparr>"
    by (auto simp: ZipFinder_find_module_def split: sum.splits if_splits)
  from search_zip_found [OF sz] sp show ?thesis
    by (auto simp: os_sep_def)
qed

theorem C4_zip_descriptor_witness:
  "ZipFinder_find_module bare_env ''m'' [''pkg'', ''m''] egg_cache
     = Inr (Some \<lparr>name = ''m'', type = Enum PY_ZIPMODULE,
                  location = Some ''/eggs/a.egg/pkg/m'', origin = Some ''egg'',
                  submodule_search_locations = LStr ''/eggs/a.egg''\<rparr>)
   \<and> type \<lparr>name = ''m'', type = Enum PY_ZIPMODULE,
                  location = Some ''/eggs/a.egg/pkg/m'', origin = Some ''egg'',
                  submodule_search_locations = LStr ''/eggs/a.egg''\<rparr> = Enum PY_ZIPMODULE"
proof -
  have fm: "ZipFinder_find_module bare_env ''m'' [''pkg'', ''m''] egg_cache
     = Inr (Some \<lparr>name = ''m'', type = Enum PY_ZIPMODULE,
                  location = Some ''/eggs/a.egg/pkg/m'', origin = Some ''egg'',
                  submodule_search_locations = LStr ''/eggs/a.egg''\<rparr>)"
    by (simp add: ZipFinder_find_module_def egg_cache_def egg_importer_def os_sep_def
        bare_env_def)
  from C4_zip_descriptor [OF fm] fm show ?thesis by simp
qed

text \<open>The origin of that spec is \<open>'egg'\<close>, not \<open>'archive'\<close>.\<close>

theorem C4_origin_counterexample:
  "ZipFinder_find_module bare_env ''m'' [''pkg'', ''m''] egg_cache
     = Inr (Some \<lparr>name = ''m'', type = Enum PY_ZIPMODULE,
                  location = Some ''/eggs/a.egg/pkg/m'', origin = Some ''egg'',
                  submodule_search_locations = LStr ''/eggs/a.egg''\<rparr>)
   \<and> origin \<lparr>name = ''m'', type = Enum PY_ZIPMODULE,
               location = Some ''/eggs/a.egg/pkg/m'', origin = Some ''egg'',
               submodule_search_locations = LStr ''/eggs/a.egg''\<rparr> \<noteq> Some ''archive''"
  by (simp add: ZipFinder_find_module_def egg_cache_def egg_importer_def os_sep_def
      bare_env_def)

section \<open>Properties of the archive-handle cache\<close>

lemma precache_loop_cached:
  assumes "p \<in> set (map fst (path_importer_cache st))"
  shows "count_list (zipimporter_calls (precache_loop e entries st)) p
           = count_list (zipimporter_calls st) p
         \<and> map_of (path_importer_cache (precache_loop e entries st)) p
           = map_of (path_importer_cache st) p
         \<and> p \<in> set (map fst (path_importer_cache (precache_loop e entries st)))"
  using assms
proof (induction entries arbitrary: st)
  case Nil
  then show ?case by simp
next
  case (Cons entry entries)
  show ?case
  proof (cases "entry \<in> set (map fst (path_importer_cache st))")
    case True
    with Cons show ?thesis by simp
  next
    case False
    with Cons.prems have ne: "entry \<noteq> p" by auto
    let ?st1 = "st\<lparr>zipimporter_calls := zipimporter_calls st @ [entry]\<rparr>"
    show ?thesis
    proof (cases "zipimport_zipimporter e entry")
      case None
      have "p \<in> set (map fst (path_importer_cache ?st1))" using Cons.prems by simp
      from Cons.IH [OF this] False None ne show ?thesis by simp
    next
      case (Some importer)
      let ?st2 = "?st1\<lparr>path_importer_cache := path_importer_cache ?st1 @ [(entry, Some importer)]\<rparr>"
      have in2: "p \<in> set (map fst (path_importer_cache ?st2))" using Cons.prems by simp
      have "map_of (path_importer_cache st) p \<noteq> None"
        using Cons.prems by (simp add: map_of_eq_None_iff)
      then have m2: "map_of (path_importer_cache ?st2) p = map_of (path_importer_cache st) p"
        by (auto simp: map_add_def split: option.splits)
      from Cons.IH [OF in2] m2 False Some ne show ?thesis by simp
    qed
  qed
qed

lemma precache_loop_failing:
  assumes "p \<notin> set (map fst (path_importer_cache st))"
    and "zipimport_zipimporter e p = None"
  shows "count_list (zipimporter_calls (precache_loop e entries st)) p
           = count_list (zipimporter_calls st) p + count_list entries p
         \<and> p \<notin> set (map fst (path_importer_cache (precache_loop e entries st)))"
  using assms
proof (induction entries arbitrary: st)
  case Nil
  then show ?case by simp
next
  case (Cons entry entries)
  show ?case
  proof (cases "entry \<in> set (map fst (path_importer_cache st))")
    case True
    with Cons.prems have "entry \<noteq> p" by auto
    with Cons True show ?thesis by simp
  next
    case False
    let ?st1 = "st\<lparr>zipimporter_calls := zipimporter_calls st @ [entry]\<rparr>"
    show ?thesis
    proof (cases "zipimport_zipimporter e entry")
      case None
      have "p \<notin> set (map fst (path_importer_cache ?st1))" using Cons.prems by simp
      from Cons.IH [OF this Cons.prems(2)] False None show ?thesis by simp
    next
      case (Some importer)
      with Cons.prems have ne: "entry \<noteq> p" by auto
      let ?st2 = "?st1\<lparr>path_importer_cache := path_importer_cache ?st1 @ [(entry, Some importer)]\<rparr>"
      have "p \<notin> set (map fst (path_importer_cache ?st2))" using Cons.prems ne by simp
      from Cons.IH [OF this Cons.prems(2)] False Some ne show ?thesis by simp
    qed
  qed
qed

lemma precache_loop_opening:
  assumes "p \<notin> set (map fst (path_importer_cache st))"
    and "zipimport_zipimporter e p = Some handle"
  shows "if p \<in> set entries
         then count_list (zipimporter_calls (precache_loop e entries st)) p
                = count_list (zipimporter_calls st) p + 1
              \<and> map_of (path_importer_cache (precache_loop e entries st)) p = Some (Some handle)
         else count_list (zipimporter_calls (precache_loop e entries st)) p
                = count_list (zipimporter_calls st) p
              \<and> p \<notin> set (map fst (path_importer_cache (precache_loop e entries st)))"
  using assms
proof (induction entries arbitrary: st)
  case Nil
  then show ?case by simp
next
  case (Cons entry entries)
  show ?case
  proof (cases "entry = p")
    case True
    let ?st1 = "st\<lparr>zipimporter_calls := zipimporter_calls st @ [p]\<rparr>"
    let ?st2 = "?st1\<lparr>path_importer_cache := path_importer_cache ?st1 @ [(p, Some handle)]\<rparr>"
    have step: "precache_loop e (entry # entries) st = precache_loop e entries ?st2"
      using True Cons.prems by simp
    have in2: "p \<in> set (map fst (path_importer_cache ?st2))" by simp
    have "map_of (path_importer_cache st) p = None"
      using Cons.prems(1) by (simp add: map_of_eq_None_iff)
    then have m2: "map_of (path_importer_cache ?st2) p = Some (Some handle)"
      by (simp add: map_add_def)
    from precache_loop_cached [OF in2, of e entries] m2 step True show ?thesis by simp
  next
    case False
    show ?thesis
    proof (cases "entry \<in> set (map fst (path_importer_cache st))")
      case True
      from Cons.IH [OF Cons.prems] True False show ?thesis by (simp split: if_splits)
    next
      case notin: False
      let ?st1 = "st\<lparr>zipimporter_calls := zipimporter_calls st @ [entry]\<rparr>"
      show ?thesis
      proof (cases "zipimport_zipimporter e entry")
        case None
        have "p \<notin> set (map fst (path_importer_cache ?st1))" using Cons.prems by simp
        from Cons.IH [OF this Cons.prems(2)] notin None False show ?thesis by (simp split: if_splits)
      next
        case (Some importer)
        let ?st2 = "?st1\<lparr>path_importer_cache := path_importer_cache ?st1 @ [(entry, Some importer)]\<rparr>"
        have "p \<notin> set (map fst (path_importer_cache ?st2))" using Cons.prems False by simp
        from Cons.IH [OF this Cons.prems(2)] notin Some False show ?thesis by (simp split: if_splits)
      qed
    qed
  qed
qed

text \<open>
  Claim C7, as the code has it. One call of \<open>_precache_zipimporters\<close>, from any state
  of the cache, seen from one entry \<open>p\<close>. If \<open>p\<close> is a key of the cache,
  \<open>zipimport.zipimporter\<close> is not called on it and its handle stays. If it is not and the
  archive opens, the primitive is called on it once, however often \<open>p\<close> occurs in the
  path, and the handle is stored. If it is not and the archive does not open, nothing is
  stored and the primitive was called once for each occurrence of \<open>p\<close> in the path:
  the entry stays out of the cache, and every later call tries it again.
\<close>

theorem C7_archive_handle_cache:
  "(let st' = precache_zipimporters e path st;
        entries = or_sys_path e path;
        calls = (\<lambda>s. count_list (zipimporter_calls s) p);
        handle_of = (\<lambda>s. map_of (path_importer_cache s) p);
        cached = (\<lambda>s. p \<in> set (map fst (path_importer_cache s)))
    in if cached st then calls st' = calls st \<and> handle_of st' = handle_of st \<and> cached st'
       else (case zipimport_zipimporter e p of
               Some handle \<Rightarrow>
                 if p \<in> set entries
                 then calls st' = calls st + 1 \<and> handle_of st' = Some (Some handle)
                 else calls st' = calls st \<and> \<not> cached st'
             | None \<Rightarrow> calls st' = calls st + count_list entries p \<and> \<not> cached st'))"
proof (cases "p \<in> set (map fst (path_importer_cache st))")
  case True
  from precache_loop_cached [OF True, of e "or_sys_path e path"] True show ?thesis
    by (simp add: precache_zipimporters_def Let_def)
next
  case False
  show ?thesis
  proof (cases "zipimport_zipimporter e p")
    case None
    from precache_loop_failing [OF False None, of "or_sys_path e path"] False None
    show ?thesis by (simp add: precache_zipimporters_def Let_def)
  next
    case (Some handle)
    from precache_loop_opening [OF False Some, of "or_sys_path e path"] False Some
    show ?thesis by (simp add: precache_zipimporters_def Let_def split: if_splits)
  qed
qed

text \<open>
  An entry that is no archive is tried again by the second call: the open primitive has
  been called on \<open>/lib\<close> twice, and \<open>/lib\<close> is in the cache after neither call.
\<close>

theorem C7_failure_retried_counterexample:
  "zipimport_zipimporter bare_env ''/lib'' = None
   \<and> zipimporter_calls (precache_zipimporters bare_env (Some [''/lib'']) empty_state) = [''/lib'']
   \<and> path_importer_cache (precache_zipimporters bare_env (Some [''/lib'']) empty_state) = []
   \<and> zipimporter_calls
         (precache_zipimporters bare_env (Some [''/lib''])
            (precache_zipimporters bare_env (Some [''/lib'']) empty_state))
       = [''/lib'', ''/lib'']"
  by (simp add: precache_zipimporters_def or_sys_path_def bare_env_def empty_state_def)

theorem C7_archive_handle_cache_witness:
  "count_list (zipimporter_calls (precache_zipimporters env_egg None empty_state)) ''/eggs/a.egg'' = 1
   \<and> map_of (path_importer_cache (precache_zipimporters env_egg None empty_state)) ''/eggs/a.egg''
       = Some (Some egg_importer)
   \<and> count_list (zipimporter_calls (precache_zipimporters env_egg None empty_state)) ''/lib'' = 1
   \<and> map_of (path_importer_cache (precache_zipimporters env_egg None empty_state)) ''/lib'' = None"
proof -
  have egg: "''/eggs/a.egg'' \<notin> set (map fst (path_importer_cache empty_state))"
    and lib: "''/lib'' \<notin> set (map fst (path_importer_cache empty_state))"
    by (simp_all add: empty_state_def)
  have opens: "zipimport_zipimporter env_egg ''/eggs/a.egg'' = Some egg_importer"
    and fails: "zipimport_zipimporter env_egg ''/lib'' = None"
    by (simp_all add: env_egg_def bare_env_def)
  have entries: "or_sys_path env_egg None = [''/lib'', ''/eggs/a.egg'', ''/eggs/a.egg'']"
    by (simp add: or_sys_path_def env_egg_def bare_env_def)
  have calls0: "zipimporter_calls empty_state = []" by (simp add: empty_state_def)
  from C7_archive_handle_cache [where p = "''/eggs/a.egg''" and st = empty_state and e = env_egg
      and path = None]
    C7_archive_handle_cache [where p = "''/lib''" and st = empty_state and e = env_egg
      and path = None]
    egg lib opens fails entries calls0
  show ?thesis by (simp add: Let_def map_of_eq_None_iff)
qed

section \<open>The classifiers\<close>

text \<open>
  Claim C8. When the top-level component of the module name resolves to a file whose
  normalized path starts with the normalized \<open>EXT_LIB_DIR\<close>, \<open>is_standard_module\<close>
  returns \<open>False\<close>, whatever \<open>std_path\<close> is: the directories of \<open>std_path\<close> are not
  consulted.
\<close>

theorem C8_ext_lib_dir_first:
  assumes "file_from_modpath e [top_level modname] None None st = (Inr (Some filename), st1)"
    and "cache_normalize_path e (EXT_LIB_DIR e) st1 = (ext_lib, st2)"
    and "startswith (normalize_path e filename) ext_lib"
  shows "is_standard_module e modname std_path st = (Inr False, st2)"
  using assms by (simp add: is_standard_module_def Let_def)

theorem C8_ext_lib_dir_first_witness:
  "is_standard_module env_site_packages ''requests.adapters'' (Some [''/lib'']) empty_state
     = (Inr False,
        empty_state\<lparr>zipimporter_calls := [''/lib''],
                    NORM_PATH_CACHE := [''/lib/site-packages'' \<mapsto> ''/lib/site-packages'']\<rparr>)
   \<and> startswith (normalize_path env_site_packages ''/lib/site-packages/requests.py'') ''/lib''"
proof -
  let ?st1 = "empty_state\<lparr>zipimporter_calls := [''/lib'']\<rparr>"
  let ?st2 = "empty_state\<lparr>zipimporter_calls := [''/lib''],
                    NORM_PATH_CACHE := [''/lib/site-packages'' \<mapsto> ''/lib/site-packages'']\<rparr>"
  have top: "top_level ''requests.adapters'' = ''requests''"
    by (simp add: top_level_def)
  have f: "file_from_modpath env_site_packages [top_level ''requests.adapters''] None None
             empty_state = (Inr (Some ''/lib/site-packages/requests.py''), ?st1)"
    unfolding top
    by (simp add: resolver_defs example_defs env_site_packages_def)
  have c: "cache_normalize_path env_site_packages (EXT_LIB_DIR env_site_packages) ?st1
             = (''/lib/site-packages'', ?st2)"
    by (simp add: cache_normalize_path_def normalize_path_def example_defs
        env_site_packages_def)
  have s: "startswith (normalize_path env_site_packages ''/lib/site-packages/requests.py'')
             ''/lib/site-packages''"
    by (simp add: startswith_def normalize_path_def example_defs env_site_packages_def)
  have s2: "startswith (normalize_path env_site_packages ''/lib/site-packages/requests.py'')
             ''/lib''"
    by (simp add: startswith_def normalize_path_def example_defs env_site_packages_def)
  from C8_ext_lib_dir_first [OF f c s] s2 show ?thesis by simp
qed

text \<open>
  Claim C9. \<open>is_relative\<close> takes the directory of \<open>from_file\<close>: \<open>dirname(from_file)\<close>
  for a file, and \<open>from_file\<close> itself when it already is a directory. When this
  directory is an entry of \<open>sys.path\<close> the result is \<open>False\<close> for every module name,
  and \<open>imp.find_module\<close> is not asked: the result is the same whatever
  \<open>imp.find_module\<close> would answer.
\<close>

theorem C9_search_path_root_not_relative:
  assumes "(if os_path_isdir e from_file then from_file else os_path_dirname from_file)
             \<in> set (sys_path e)"
  shows "is_relative (e\<lparr>imp_find_module := lookup\<rparr>) modname from_file = False"
  using assms by (simp add: is_relative_def Let_def split: if_splits)

theorem C9_search_path_root_not_relative_witness:
  "os_path_dirname ''/a/c.py'' \<in> set (sys_path env_from_directory)
   \<and> \<not> os_path_isdir env_from_directory ''/a/c.py''
   \<and> is_relative (env_from_directory\<lparr>imp_find_module := (\<lambda>n p. Some (None, imp_C_BUILTIN))\<rparr>)
         ''m'' ''/a/c.py'' = False"
proof -
  have d: "os_path_dirname ''/a/c.py'' = ''/a''"
    by (simp add: path_defs)
  have nd: "\<not> os_path_isdir env_from_directory ''/a/c.py''"
    by (simp add: env_from_directory_def bare_env_def)
  have r: "(if os_path_isdir env_from_directory ''/a/c.py'' then ''/a/c.py''
            else os_path_dirname ''/a/c.py'') \<in> set (sys_path env_from_directory)"
    using nd d by (simp add: env_from_directory_def bare_env_def)
  from C9_search_path_root_not_relative [OF r] d nd show ?thesis
    by (simp add: env_from_directory_def bare_env_def)
qed

section \<open>The extra path of \<open>modpath_from_file\<close>\<close>

lemma extrapath_loop_skips:
  assumes "list_all (\<lambda>key. \<not> extra_root_accepted e cb base key) keys1"
  shows "extrapath_loop e cb base xp (keys1 @ keys2) = extrapath_loop e cb base xp keys2"
  using assms
  by (induction keys1) (auto simp: extra_root_accepted_def Let_def)

lemma extrapath_loop_accepts:
  assumes "extra_root_accepted e cb base key"
  shows "extrapath_loop e cb base xp (key # keys)
           = (case map_of xp (canonicalize_path e key) of
                None \<Rightarrow> Some (Inl KeyError)
              | Some package \<Rightarrow>
                  Some (Inr (split_on CHR ''.'' package
                             @ path_components
                                 (drop (length (os_path_abspath e (canonicalize_path e key)))
                                    base))))"
  using assms by (simp add: extra_root_accepted_def Let_def)

text \<open>
  Claim C6, as the code has it. Let \<open>base\<close> be the canonical path of the file without
  its extension. For the first key \<open>root\<close> of \<open>extrapath\<close> (in iteration order) whose
  canonicalized form is a prefix of \<open>base\<close> and whose remainder is accepted by the
  callback, which is given the remainder's components without the last one, the function
  returns the package name stored under the canonicalized root, split on dots, followed
  by all the components of the remainder, the last one included.
\<close>

theorem C6_extrapath_result:
  assumes "base = fst (os_path_splitext
                         (os_path_realpath e
                            (os_path_expanduser e (path_from_filename e filename))))"
    and "extrapath = pre @ (root, package) # post"
    and "list_all (\<lambda>key. \<not> extra_root_accepted e is_package_cb base key) (map fst pre)"
    and "extra_root_accepted e is_package_cb base root"
    and "map_of extrapath (canonicalize_path e root) = Some package"
  shows "modpath_from_file_with_callback e filename (Some extrapath) is_package_cb st
           = (Inr (split_on CHR ''.'' package
                   @ path_components
                       (drop (length (os_path_abspath e (canonicalize_path e root))) base)),
              st)"
proof -
  have keys: "map fst extrapath = map fst pre @ root # map fst post"
    using assms(2) by simp
  have "extrapath_loop e is_package_cb base extrapath (map fst extrapath)
          = extrapath_loop e is_package_cb base extrapath (root # map fst post)"
    unfolding keys using assms(3) by (rule extrapath_loop_skips)
  also have "\<dots> = Some (Inr (split_on CHR ''.'' package
                   @ path_components
                       (drop (length (os_path_abspath e (canonicalize_path e root))) base)))"
    using extrapath_loop_accepts [OF assms(4), of extrapath "map fst post"] assms(5) by simp
  finally show ?thesis
    using assms(1) by (simp add: modpath_from_file_with_callback_def Let_def)
qed

theorem C6_extrapath_result_witness:
  "extra_root_accepted env_extra (check_modpath_has_init env_extra) ''/x/a/b'' ''/x''
   \<and> modpath_from_file env_extra ''/x/a/b.py'' (Some [(''/y'', ''other''), (''/x'', ''top.pkg'')])
         empty_state
       = (Inr [''top'', ''pkg'', ''a'', ''b''], empty_state)"
proof -
  have base: "''/x/a/b'' = fst (os_path_splitext
                         (os_path_realpath env_extra
                            (os_path_expanduser env_extra
                               (path_from_filename env_extra ''/x/a/b.py''))))"
    by (simp add: path_from_filename_def path_defs env_extra_def bare_env_def)
  have xp: "[(''/y'', ''other''), (''/x'', ''top.pkg'')]
              = [(''/y'', ''other'')] @ (''/x'', ''top.pkg'') # []"
    by simp
  have hi: "has_init env_extra ''/x/a'' = Some ''/x/a/__init__.py''"
    by (simp add: path_defs env_extra_def bare_env_def)
  have pc: "path_components ''/a/b'' = [''a'', ''b'']"
    by (simp add: path_defs)
  have rej: "list_all (\<lambda>key. \<not> extra_root_accepted env_extra (check_modpath_has_init env_extra)
                                   ''/x/a/b'' key) (map fst [(''/y'', ''other'')])"
    by (simp add: extra_root_accepted_def canonicalize_path_def env_extra_def bare_env_def)
  have j: "os_path_join ''/x'' ''a'' = ''/x/a''"
    by (simp add: path_defs)
  have acc: "extra_root_accepted env_extra (check_modpath_has_init env_extra) ''/x/a/b'' ''/x''"
    using hi pc j
    by (simp add: extra_root_accepted_def check_modpath_has_init_def canonicalize_path_def
        env_extra_def bare_env_def)
  have mp: "map_of [(''/y'', ''other''), (''/x'', ''top.pkg'')]
              (canonicalize_path env_extra ''/x'') = Some ''top.pkg''"
    by (simp add: canonicalize_path_def env_extra_def bare_env_def)
  have ab: "os_path_abspath env_extra (canonicalize_path env_extra ''/x'') = ''/x''"
    by (simp add: canonicalize_path_def env_extra_def bare_env_def)
  from C6_extrapath_result [OF base xp rej acc mp, of empty_state] acc pc ab
  show ?thesis by (simp add: modpath_from_file_def)
qed

text \<open>
  The last component of the remainder is part of the result: for \<open>/x/a/b.py\<close> under the
  root \<open>/x\<close> of the package \<open>pkg\<close> the result is \<open>pkg.a.b\<close>, not \<open>pkg.a\<close>.
\<close>

theorem C6_last_component_counterexample:
  "extra_root_accepted env_extra (check_modpath_has_init env_extra) ''/x/a/b'' ''/x''
   \<and> fst (modpath_from_file env_extra ''/x/a/b.py'' (Some [(''/x'', ''pkg'')]) empty_state)
       = Inr [''pkg'', ''a'', ''b'']
   \<and> split_on CHR ''.'' ''pkg'' @ butlast (path_components (drop (length ''/x'') ''/x/a/b''))
       = [''pkg'', ''a'']"
  by (simp add: modpath_from_file_def modpath_from_file_with_callback_def
      extra_root_accepted_def check_modpath_has_init_def path_from_filename_def path_defs
      env_extra_def bare_env_def)

section \<open>The caller's list\<close>

lemma find_spec_obj_loop_values:
  assumes "modpath \<noteq> processed" and "modpath \<noteq> module_parts" and "processed \<noteq> module_parts"
    and "a \<noteq> modpath" and "a \<noteq> processed"
    and "length (cells h modpath) < n"
  shows "\<exists>h'. find_spec_obj_loop n e sp path module_parts modpath processed sub spec h st
                = Some (fst (find_spec_loop e sp path (cells h module_parts) (cells h modpath)
                               (cells h processed) sub spec st),
                        h',
                        snd (find_spec_loop e sp path (cells h module_parts) (cells h modpath)
                               (cells h processed) sub spec st))
              \<and> cells h' a = cells h a \<and> next_ref h' = next_ref h"
  using assms(6)
proof (induction n arbitrary: h sub spec st)
  case 0
  then show ?case by simp
next
  case (Suc n)
  show ?case
  proof (cases "cells h modpath")
    case Nil
    then show ?thesis by (cases spec) simp_all
  next
    case (Cons modname rest)
    let ?h1 = "list_pop0 modpath h"
    have h1: "cells ?h1 modpath = rest" "cells ?h1 module_parts = cells h module_parts"
      "cells ?h1 processed = cells h processed" "cells ?h1 a = cells h a"
      "next_ref ?h1 = next_ref h"
      using assms(1-5) Cons by (simp_all add: list_pop0_def)
    obtain r st1 where fw: "find_spec_with_path e sp modname (cells h module_parts)
                              (cells h processed) (or_path sub path) st = (r, st1)"
      by (cases "find_spec_with_path e sp modname (cells h module_parts)
                              (cells h processed) (or_path sub path) st")
    show ?thesis
    proof (cases r)
      case (Inl err)
      with Cons h1 fw show ?thesis by simp
    next
      case (Inr found)
      obtain finder spec1 where found: "found = (finder, spec1)" by (cases found)
      let ?h2 = "list_append processed modname ?h1"
      have h2: "cells ?h2 modpath = rest" "cells ?h2 module_parts = cells h module_parts"
        "cells ?h2 processed = cells h processed @ [modname]" "cells ?h2 a = cells h a"
        "next_ref ?h2 = next_ref h"
        using assms(1-5) h1 by (simp_all add: list_append_def)
      have len: "length (cells ?h2 modpath) < n" using Suc.prems Cons h2(1) by simp
      let ?sub1 = "if rest \<noteq> []
                   then contribute_to_path e finder spec1 (cells h processed @ [modname])
                   else sub"
      let ?spec2 = "if type spec1 = Enum PKG_DIRECTORY
                    then spec1\<lparr>submodule_search_locations := ?sub1\<rparr> else spec1"
      have lhs: "find_spec_obj_loop (Suc n) e sp path module_parts modpath processed sub spec h st
                   = find_spec_obj_loop n e sp path module_parts modpath processed ?sub1
                       (Some ?spec2) ?h2 st1"
        using Cons h1 h2 fw Inr found by (simp add: Let_def)
      have rhs: "find_spec_loop e sp path (cells h module_parts) (cells h modpath)
                   (cells h processed) sub spec st
                 = find_spec_loop e sp path (cells h module_parts) rest
                     (cells h processed @ [modname]) ?sub1 (Some ?spec2) st1"
        using Cons fw Inr found by (simp add: Let_def)
      from Suc.IH [OF len, of ?sub1 "Some ?spec2" st1] obtain h' where
        run: "find_spec_obj_loop n e sp path module_parts modpath processed ?sub1
                (Some ?spec2) ?h2 st1
              = Some (fst (find_spec_loop e sp path (cells ?h2 module_parts)
                             (cells ?h2 modpath) (cells ?h2 processed) ?sub1 (Some ?spec2) st1),
                      h',
                      snd (find_spec_loop e sp path (cells ?h2 module_parts)
                             (cells ?h2 modpath) (cells ?h2 processed) ?sub1 (Some ?spec2) st1))"
        and keep: "cells h' a = cells ?h2 a" and nxt: "next_ref h' = next_ref ?h2"
        by blast
      have "find_spec_obj_loop (Suc n) e sp path module_parts modpath processed sub spec h st
              = Some (fst (find_spec_loop e sp path (cells h module_parts) (cells h modpath)
                             (cells h processed) sub spec st),
                      h',
                      snd (find_spec_loop e sp path (cells h module_parts) (cells h modpath)
                             (cells h processed) sub spec st))"
        unfolding lhs rhs run h2 ..
      moreover have "cells h' a = cells h a" using keep h2 by simp
      moreover have "next_ref h' = next_ref h" using nxt h2 by simp
      ultimately show ?thesis by blast
    qed
  qed
qed

lemma find_spec_obj_values:
  assumes "modpath_arg < next_ref h"
  shows "\<exists>h'. find_spec_obj e modpath_arg path h st
                = Some (fst (find_spec e (cells h modpath_arg) path st), h',
                        snd (find_spec e (cells h modpath_arg) path st))
              \<and> cells h' modpath_arg = cells h modpath_arg
              \<and> next_ref h' = next_ref h + 3"
proof -
  define xs where "xs = cells h modpath_arg"
  define b where "b = next_ref h"
  define h1 where "h1 = snd (new_list xs h)"
  define h2 where "h2 = snd (new_list (cells h1 b) h1)"
  define h3 where "h3 = snd (new_list [] h2)"
  have n1: "new_list xs h = (b, h1)"
    by (simp add: new_list_def b_def h1_def)
  have c1: "cells h1 b = xs" "cells h1 modpath_arg = xs" "next_ref h1 = Suc b"
    using assms by (simp_all add: new_list_def b_def h1_def xs_def)
  have n2: "new_list (cells h1 b) h1 = (Suc b, h2)"
    using c1 by (simp add: new_list_def h2_def)
  have c2: "cells h2 b = xs" "cells h2 (Suc b) = xs" "cells h2 modpath_arg = xs"
    "next_ref h2 = Suc (Suc b)"
    using assms c1 by (simp_all add: new_list_def h2_def b_def)
  have n3: "new_list [] h2 = (Suc (Suc b), h3)"
    using c2 by (simp add: new_list_def h3_def)
  have c3: "cells h3 b = xs" "cells h3 (Suc b) = xs" "cells h3 (Suc (Suc b)) = []"
    "cells h3 modpath_arg = xs" "next_ref h3 = b + 3"
    using assms c2 by (simp_all add: new_list_def h3_def b_def)
  have obj: "find_spec_obj e modpath_arg path h st
          = find_spec_obj_loop (Suc (length xs)) e (or_sys_path e path) path (Suc b) b
              (Suc (Suc b)) LNone None h3 st"
    unfolding find_spec_obj_def xs_def [symmetric] n1 prod.case n2 n3 c3 ..
  have d1: "b \<noteq> Suc (Suc b)" and d2: "b \<noteq> Suc b" and d3: "Suc (Suc b) \<noteq> Suc b"
    and d4: "modpath_arg \<noteq> b" and d5: "modpath_arg \<noteq> Suc (Suc b)"
    using assms by (simp_all add: b_def)
  have len: "length (cells h3 b) < Suc (length xs)" using c3 by simp
  from find_spec_obj_loop_values [OF d1 d2 d3 d4 d5 len, of e "or_sys_path e path" path LNone
      None st]
  obtain h' where
    run: "find_spec_obj_loop (Suc (length xs)) e (or_sys_path e path) path (Suc b) b
            (Suc (Suc b)) LNone None h3 st
       = Some (fst (find_spec_loop e (or_sys_path e path) path (cells h3 (Suc b)) (cells h3 b)
                      (cells h3 (Suc (Suc b))) LNone None st),
               h',
               snd (find_spec_loop e (or_sys_path e path) path (cells h3 (Suc b)) (cells h3 b)
                      (cells h3 (Suc (Suc b))) LNone None st))"
    and keep: "cells h' modpath_arg = cells h3 modpath_arg" and nxt: "next_ref h' = next_ref h3"
    by blast
  have "find_spec_obj e modpath_arg path h st
          = Some (fst (find_spec e xs path st), h', snd (find_spec e xs path st))"
    unfolding obj run c3 find_spec_def ..
  moreover have "cells h' modpath_arg = xs" using keep c3 by simp
  moreover have "next_ref h' = next_ref h + 3" using nxt c3 by (simp add: b_def)
  ultimately show ?thesis unfolding xs_def by blast
qed

text \<open>
  Claim C10. \<open>_find_spec\<close> is called with a reference to a list of the caller. The call
  returns, with the result and the process state that the resolution of the list's
  components gives; the caller's list holds the same components afterwards; and a second
  resolution through the same reference, in whatever state of the caches, resolves those
  same components again.
\<close>

theorem C10_caller_list_unchanged:
  assumes "modpath_arg < next_ref h"
  shows "\<exists>h'. find_spec_obj e modpath_arg path h st
                = Some (fst (find_spec e (cells h modpath_arg) path st), h',
                        snd (find_spec e (cells h modpath_arg) path st))
              \<and> cells h' modpath_arg = cells h modpath_arg
              \<and> (\<forall>st2. map_option fst (find_spec_obj e modpath_arg path h' st2)
                         = Some (fst (find_spec e (cells h modpath_arg) path st2)))"
proof -
  from find_spec_obj_values [OF assms, of e path st] obtain h' where
    first: "find_spec_obj e modpath_arg path h st
                = Some (fst (find_spec e (cells h modpath_arg) path st), h',
                        snd (find_spec e (cells h modpath_arg) path st))"
    and same: "cells h' modpath_arg = cells h modpath_arg"
    and nxt: "next_ref h' = next_ref h + 3"
    by blast
  from assms nxt have lt: "modpath_arg < next_ref h'" by simp
  have "map_option fst (find_spec_obj e modpath_arg path h' st2)
          = Some (fst (find_spec e (cells h modpath_arg) path st2))" for st2
    using find_spec_obj_values [OF lt, of e path st2] same by auto
  with first same show ?thesis by blast
qed

theorem C10_caller_list_unchanged_witness:
  "0 < next_ref (caller_store [''pkg''])
   \<and> cells (caller_store [''pkg'']) 0 = [''pkg'']
   \<and> map_option fst (find_spec_obj env_pkg_init 0 None (caller_store [''pkg'']) empty_state)
       = Some (Inr \<lparr>name = ''pkg'', type = Enum PKG_DIRECTORY, location = Some ''/lib/pkg'',
                     origin = None, submodule_search_locations = LNone\<rparr>)
   \<and> map_option (\<lambda>r. cells (fst (snd r)) 0)
         (find_spec_obj env_pkg_init 0 None (caller_store [''pkg'']) empty_state)
       = Some [''pkg'']"
proof -
  have lt: "0 < next_ref (caller_store [''pkg''])" by (simp add: caller_store_def)
  have c0: "cells (caller_store [''pkg'']) 0 = [''pkg'']" by (simp add: caller_store_def)
  have fs: "fst (find_spec env_pkg_init [''pkg''] None empty_state)
              = Inr \<lparr>name = ''pkg'', type = Enum PKG_DIRECTORY, location = Some ''/lib/pkg'',
                     origin = None, submodule_search_locations = LNone\<rparr>"
    by (simp add: resolver_defs example_defs env_pkg_init_def env_pkg_no_init_def)
  from C10_caller_list_unchanged [OF lt, of env_pkg_init None empty_state] lt c0 fs
  show ?thesis by auto
qed

section \<open>Paths built by the walk\<close>

















section \<open>Validation and the search-path loop\<close>







section \<open>The search-path loop\<close>



section \<open>Resolving what the finder reports\<close>






section \<open>From the listed files back to names\<close>





end
